theory Spec2Isabelle
  imports Main
begin

section \<open>Session-token lifecycle of the user controller\<close>

text \<open>
  A shallow embedding of \<^verbatim>\<open>src/controllers/user.controller.js\<close>: the handlers
  \<^verbatim>\<open>registerUser\<close>, \<^verbatim>\<open>loginUser\<close>, \<^verbatim>\<open>logoutUser\<close>, \<^verbatim>\<open>refreshAccessToken\<close> and
  \<^verbatim>\<open>changeCurrentPassword\<close> with the helper \<^verbatim>\<open>generateAccessAndRefreshTokens\<close>.
  A handler is a function from the collection of user documents (and the request) to a
  result and the collection afterwards; a thrown exception is the \<open>Inl\<close> branch.
  Of a response the JSON data is kept; the cookies carry the same two tokens.
\<close>

subsection \<open>Tokens\<close>

type_synonym objectId = nat

text \<open>
  The content of a well-formed JSON web token: the \<^verbatim>\<open>_id\<close> claim, the expiry timestamp
  claim and the secret its signature was computed with. Two tokens are the same text
  exactly when the three agree.
\<close>

record payload =
  tok_id :: objectId
  tok_exp :: nat
  tok_key :: string

text \<open>A presented token is any string: a well-formed token or something else.\<close>

datatype jwt = Malformed string | Signed payload

datatype jwt_error = JsonWebTokenError string | TokenExpiredError

text \<open>The \<^verbatim>\<open>message\<close> property of the errors that \<^verbatim>\<open>jwt.verify\<close> throws.\<close>

fun jwt_message :: "jwt_error \<Rightarrow> string" where
  "jwt_message (JsonWebTokenError m) = m"
| "jwt_message TokenExpiredError = ''jwt expired''"

text \<open>
  Modelled from the spec: the token primitives \<^verbatim>\<open>sign(claims, secret, expiry)\<close> and
  \<^verbatim>\<open>verify(token, secret)\<close> of the \<^verbatim>\<open>jsonwebtoken\<close> package, which is not part of
  the sources. Signing is deterministic given claims, secret and clock, and writes the
  expiry timestamp (clock plus lifetime) into the token. Verification fails with an
  invalid-token error when the signature does not match and with an expired-token
  error when the expiry timestamp has passed; the signature is looked at first.
\<close>

definition jwt_sign :: "objectId \<Rightarrow> string \<Rightarrow> nat \<Rightarrow> nat \<Rightarrow> jwt" where
  "jwt_sign i secret expiresIn clk =
     Signed \<lparr>tok_id = i, tok_exp = clk + expiresIn, tok_key = secret\<rparr>"

fun jwt_verify :: "jwt \<Rightarrow> string \<Rightarrow> nat \<Rightarrow> jwt_error + payload" where
  "jwt_verify (Malformed s) secret clk = Inl (JsonWebTokenError ''jwt malformed'')"
| "jwt_verify (Signed p) secret clk =
     (if tok_key p \<noteq> secret then Inl (JsonWebTokenError ''invalid signature'')
      else if tok_exp p \<le> clk then Inl TokenExpiredError
      else Inr p)"

subsection \<open>User documents and the collection\<close>

record user =
  uid :: objectId
  username :: string
  email :: string
  fullName :: string
  avatar :: string
  coverImage :: string
  password :: string
  refreshToken :: "jwt option"
  watchHistory :: "objectId list"

text \<open>
  What a handler reads from outside: \<^verbatim>\<open>process.env\<close>, the clock that \<^verbatim>\<open>jwt\<close> reads,
  whether \<^verbatim>\<open>user.save\<close> resolves, and the password hashing of the user model
  (\<^verbatim>\<open>bcrypt.compare\<close> and \<^verbatim>\<open>bcrypt.hash\<close>), which is not part of the sources.
\<close>

record env =
  ACCESS_TOKEN_SECRET :: string
  ACCESS_TOKEN_EXPIRY :: nat
  REFRESH_TOKEN_SECRET :: string
  REFRESH_TOKEN_EXPIRY :: nat
  clock :: nat
  save_ok :: bool
  bcrypt_compare :: "string \<Rightarrow> string \<Rightarrow> bool"
  bcrypt_hash :: "string \<Rightarrow> string"

datatype error = ApiError nat string | TypeError string | MongoError

definition findById :: "user list \<Rightarrow> objectId \<Rightarrow> user option" where
  "findById db i = find (\<lambda>u. uid u = i) db"

text \<open>
  \<^verbatim>\<open>User.findOne({$or: [{email}, {username}]})\<close>: the first document one of the two
  clauses matches. Every stored document has both fields, so a clause whose value is
  \<^verbatim>\<open>undefined\<close> matches none.
\<close>

definition findOne_or :: "user list \<Rightarrow> string option \<Rightarrow> string option \<Rightarrow> user option" where
  "findOne_or db em un = find (\<lambda>u. em = Some (email u) \<or> un = Some (username u)) db"

text \<open>\<^verbatim>\<open>user.save()\<close>: the stored document with the same \<^verbatim>\<open>_id\<close> is replaced.\<close>

fun save :: "user list \<Rightarrow> user \<Rightarrow> user list" where
  "save [] u = []"
| "save (v # db) u = (if uid v = uid u then u # db else v # save db u)"

text \<open>\<^verbatim>\<open>User.findByIdAndUpdate(id, {$set: ...})\<close>: one document is updated.\<close>

fun findByIdAndUpdate :: "user list \<Rightarrow> objectId \<Rightarrow> (user \<Rightarrow> user) \<Rightarrow> user list" where
  "findByIdAndUpdate [] i f = []"
| "findByIdAndUpdate (v # db) i f =
     (if uid v = i then f v # db else v # findByIdAndUpdate db i f)"

text \<open>JavaScript truthiness of a value that is a string or \<^verbatim>\<open>undefined\<close>.\<close>

definition falsy :: "string option \<Rightarrow> bool" where
  "falsy v = (v = None \<or> v = Some [])"

definition falsy_token :: "jwt option \<Rightarrow> bool" where
  "falsy_token v = (v = None \<or> v = Some (Malformed []))"

subsection \<open>Projections\<close>

datatype field = FId objectId | FString string | FToken "jwt option" | FIds "objectId list"

definition toObject :: "user \<Rightarrow> (string \<times> field) list" where
  "toObject u =
     [(''_id'', FId (uid u)), (''username'', FString (username u)),
      (''email'', FString (email u)), (''fullName'', FString (fullName u)),
      (''avatar'', FString (avatar u)), (''coverImage'', FString (coverImage u)),
      (''password'', FString (password u)), (''refreshToken'', FToken (refreshToken u)),
      (''watchHistory'', FIds (watchHistory u))]"

text \<open>
  \<^verbatim>\<open>.select("-password -refreshToken")\<close>, the excluded paths given as a list of names.
\<close>

definition select_excluding :: "string list \<Rightarrow> user \<Rightarrow> (string \<times> field) list" where
  "select_excluding names u = filter (\<lambda>kv. fst kv \<notin> set names) (toObject u)"

subsection \<open>Token generation\<close>

text \<open>
  Modelled from the spec: the model methods \<^verbatim>\<open>generateAccessToken\<close>,
  \<^verbatim>\<open>generateRefreshToken\<close> and \<^verbatim>\<open>isPasswordCorrect\<close> of \<^verbatim>\<open>models/user.model.js\<close>, which
  is not part of the sources. The Token Issuer signs the user identifier as claim, each
  token with its own secret and lifetime; the Credential Verifier compares a plaintext
  password with the stored hash and answers with a boolean.
\<close>

definition generateAccessToken :: "env \<Rightarrow> user \<Rightarrow> jwt" where
  "generateAccessToken e u =
     jwt_sign (uid u) (ACCESS_TOKEN_SECRET e) (ACCESS_TOKEN_EXPIRY e) (clock e)"

definition generateRefreshToken :: "env \<Rightarrow> user \<Rightarrow> jwt" where
  "generateRefreshToken e u =
     jwt_sign (uid u) (REFRESH_TOKEN_SECRET e) (REFRESH_TOKEN_EXPIRY e) (clock e)"

definition isPasswordCorrect :: "env \<Rightarrow> user \<Rightarrow> string \<Rightarrow> bool" where
  "isPasswordCorrect e u pw = bcrypt_compare e pw (password u)"

text \<open>
  \<^verbatim>\<open>generateAccessAndRefreshTokens\<close>: whatever is thrown inside the \<^verbatim>\<open>try\<close> (the
  method call on \<^verbatim>\<open>null\<close> when no user is found, a rejected \<^verbatim>\<open>save\<close>) becomes the
  \<^verbatim>\<open>ApiError\<close> with status 500.
\<close>

definition generateAccessAndRefreshTokens ::
  "env \<Rightarrow> user list \<Rightarrow> objectId \<Rightarrow> (error + jwt \<times> jwt) \<times> user list" where
  "generateAccessAndRefreshTokens e db userId =
     (case findById db userId of
        None \<Rightarrow> (Inl (ApiError 500 ''Something went wrong while generating tokens''), db)
      | Some u \<Rightarrow>
          let accessToken = generateAccessToken e u;
              newRefreshToken = generateRefreshToken e u
          in if save_ok e
             then (Inr (accessToken, newRefreshToken),
                   save db (u\<lparr>refreshToken := Some newRefreshToken\<rparr>))
             else (Inl (ApiError 500 ''Something went wrong while generating tokens''), db))"

subsection \<open>Login\<close>

record login_body =
  lb_email :: "string option"
  lb_username :: "string option"
  lb_password :: "string option"

record login_response =
  lr_user :: "(string \<times> field) list option"
  lr_accessToken :: jwt
  lr_refreshToken :: jwt

definition loginUser ::
  "env \<Rightarrow> user list \<Rightarrow> login_body \<Rightarrow> (error + login_response) \<times> user list" where
  "loginUser e db body =
     (if (falsy (lb_email body) \<and> falsy (lb_username body)) \<or> falsy (lb_password body)
      then (Inl (ApiError 400 ''Email/Username and password required''), db)
      else case findOne_or db (lb_email body) (lb_username body) of
        None \<Rightarrow> (Inl (ApiError 404 ''User does not exist''), db)
      | Some u \<Rightarrow>
          if \<not> isPasswordCorrect e u (case lb_password body of Some pw \<Rightarrow> pw | None \<Rightarrow> [])
          then (Inl (ApiError 401 ''Invalid credentials''), db)
          else case generateAccessAndRefreshTokens e db (uid u) of
            (Inl err, db') \<Rightarrow> (Inl err, db')
          | (Inr (accessToken, newRefreshToken), db') \<Rightarrow>
              (Inr \<lparr>lr_user = map_option (select_excluding [''password'', ''refreshToken''])
                                (findById db' (uid u)),
                    lr_accessToken = accessToken,
                    lr_refreshToken = newRefreshToken\<rparr>, db'))"

subsection \<open>Logout\<close>

record api_response =
  statusCode :: nat
  message :: string

text \<open>
  \<^verbatim>\<open>logoutUser\<close>: \<^verbatim>\<open>req.user._id\<close> comes from the authorization middleware; the
  handler compares no token and always answers with success.
\<close>

text \<open>
  The update document \<^verbatim>\<open>{$set: {refreshToken: v}}\<close>. The object-document mapper removes
  a key whose value is \<^verbatim>\<open>undefined\<close> from an update before the update is sent, so with
  \<^verbatim>\<open>undefined\<close> nothing is set and the document stays as it is.
\<close>

definition set_refreshToken :: "jwt option \<Rightarrow> user \<Rightarrow> user" where
  "set_refreshToken v u = (case v of None \<Rightarrow> u | Some t \<Rightarrow> u\<lparr>refreshToken := Some t\<rparr>)"

definition logoutUser :: "user list \<Rightarrow> objectId \<Rightarrow> (error + api_response) \<times> user list" where
  "logoutUser db req_user_id =
     (Inr \<lparr>statusCode = 200, message = ''User logged out successfully''\<rparr>,
      findByIdAndUpdate db req_user_id (set_refreshToken None))"

subsection \<open>Refresh\<close>

record refresh_response =
  rr_accessToken :: jwt
  rr_refreshToken :: jwt

fun error_message :: "error \<Rightarrow> string" where
  "error_message (ApiError c m) = m"
| "error_message (TypeError m) = m"
| "error_message MongoError = []"

text \<open>
  The \<^verbatim>\<open>catch\<close> of \<^verbatim>\<open>refreshAccessToken\<close>:
  \<^verbatim>\<open>throw new ApiError(401, error?.message || "Invalid refresh token")\<close>.
\<close>

definition rethrow_401 :: "string \<Rightarrow> error" where
  "rethrow_401 m = ApiError 401 (if m = [] then ''Invalid refresh token'' else m)"

definition refreshAccessToken ::
  "env \<Rightarrow> user list \<Rightarrow> jwt option \<Rightarrow> jwt option \<Rightarrow> (error + refresh_response) \<times> user list" where
  "refreshAccessToken e db cookieToken bodyToken =
     (case (if falsy_token cookieToken then bodyToken else cookieToken) of
        None \<Rightarrow> (Inl (ApiError 401 ''No refresh token found''), db)
      | Some incomingRefreshToken \<Rightarrow>
          if incomingRefreshToken = Malformed []
          then (Inl (ApiError 401 ''No refresh token found''), db)
          else case jwt_verify incomingRefreshToken (REFRESH_TOKEN_SECRET e) (clock e) of
            Inl err \<Rightarrow> (Inl (rethrow_401 (jwt_message err)), db)
          | Inr decodedToken \<Rightarrow>
              (case findById db (tok_id decodedToken) of
                 None \<Rightarrow> (Inl (rethrow_401 ''Invalid refresh token''), db)
               | Some u \<Rightarrow>
                   if Some incomingRefreshToken \<noteq> refreshToken u
                   then (Inl (rethrow_401 ''Expired or invalid refresh token''), db)
                   else case generateAccessAndRefreshTokens e db (uid u) of
                     (Inl err, db') \<Rightarrow> (Inl (rethrow_401 (error_message err)), db')
                   | (Inr (accessToken, newRefreshToken), db') \<Rightarrow>
                       (Inr \<lparr>rr_accessToken = accessToken,
                             rr_refreshToken = newRefreshToken\<rparr>, db')))"

subsection \<open>Password change\<close>

text \<open>
  \<^verbatim>\<open>changeCurrentPassword\<close>, with both body fields present. The method call on \<^verbatim>\<open>null\<close>
  when no user is found is a \<^verbatim>\<open>TypeError\<close>; a rejected \<^verbatim>\<open>save\<close> propagates.
\<close>

text \<open>
  Modelled from the spec: the save hook of \<^verbatim>\<open>models/user.model.js\<close>, which is not part
  of the sources, re-hashes a changed password before it is persisted and touches no
  other field.
\<close>

definition changeCurrentPassword ::
  "env \<Rightarrow> user list \<Rightarrow> objectId \<Rightarrow> string \<Rightarrow> string \<Rightarrow> (error + api_response) \<times> user list" where
  "changeCurrentPassword e db req_user_id oldpassword newPassword =
     (case findById db req_user_id of
        None \<Rightarrow> (Inl (TypeError ''Cannot read properties of null (reading isPasswordCorrect)''), db)
      | Some u \<Rightarrow>
          if \<not> isPasswordCorrect e u oldpassword
          then (Inl (ApiError 400 ''Invalid old password.''), db)
          else if save_ok e
          then (Inr \<lparr>statusCode = 200, message = ''Password changed successfully.''\<rparr>,
                save db (u\<lparr>password := bcrypt_hash e newPassword\<rparr>))
          else (Inl MongoError, db))"

subsection \<open>Registration\<close>

text \<open>
  Strings are ASCII here: \<^verbatim>\<open>trim\<close> strips the ASCII white space and \<^verbatim>\<open>toLowerCase\<close>
  maps the letters A to Z.
\<close>

definition is_space :: "char \<Rightarrow> bool" where
  "is_space c = (c \<in> set [CHR '' '', CHR 0x09, CHR 0x0A, CHR 0x0B, CHR 0x0C, CHR 0x0D])"

definition trim :: "string \<Rightarrow> string" where
  "trim s = rev (dropWhile is_space (rev (dropWhile is_space s)))"

definition toLowerCase :: "string \<Rightarrow> string" where
  "toLowerCase s =
     map (\<lambda>c. if 65 \<le> (of_char c :: nat) \<and> (of_char c :: nat) \<le> 90
              then char_of ((of_char c :: nat) + 32) else c) s"

record register_body =
  rb_fullName :: "string option"
  rb_email :: "string option"
  rb_username :: "string option"
  rb_password :: "string option"

record register_files =
  rf_avatar :: "string option"
  rf_coverImage :: "string option"

text \<open>The argument of \<^verbatim>\<open>User.create\<close>.\<close>

record new_user =
  nu_fullName :: "string option"
  nu_avatar :: string
  nu_coverImage :: string
  nu_email :: "string option"
  nu_password :: "string option"
  nu_username :: string

text \<open>
  The check \<^verbatim>\<open>[fullName, email, username, password].some((f) => f?.trim() === "")\<close>:
  for an absent field \<^verbatim>\<open>f?.trim()\<close> is \<^verbatim>\<open>undefined\<close>.
\<close>

definition some_blank :: "string option list \<Rightarrow> bool" where
  "some_blank fs = list_ex (\<lambda>f. map_option trim f = Some []) fs"

text \<open>
  \<^verbatim>\<open>registerUser\<close>. The media upload \<^verbatim>\<open>uploadOnCloudinary\<close> (the URL, or nothing for
  \<^verbatim>\<open>null\<close>) and \<^verbatim>\<open>User.create\<close> with the schema of the user model are not part of the
  sources and are parameters. The argument of \<^verbatim>\<open>User.create\<close> is evaluated before the
  call, so \<^verbatim>\<open>username.toLowerCase()\<close> on an absent username throws first.
\<close>

definition registerUser ::
  "(string option \<Rightarrow> string option) \<Rightarrow> (new_user \<Rightarrow> user list \<Rightarrow> error + user \<times> user list) \<Rightarrow>
   user list \<Rightarrow> register_body \<Rightarrow> register_files \<Rightarrow>
   (error + (string \<times> field) list option) \<times> user list" where
  "registerUser uploadOnCloudinary User_create db body files =
     (if some_blank [rb_fullName body, rb_email body, rb_username body, rb_password body]
      then (Inl (ApiError 400 ''All fields are required''), db)
      else case findOne_or db (rb_email body) (rb_username body) of
        Some existingUser \<Rightarrow> (Inl (ApiError 409 ''User with email/username already exists''), db)
      | None \<Rightarrow>
          if falsy (rf_avatar files)
          then (Inl (ApiError 400 ''Avatar file is required''), db)
          else case uploadOnCloudinary (rf_avatar files) of
            None \<Rightarrow> (Inl (ApiError 400 ''Avatar upload failed''), db)
          | Some avatar_url \<Rightarrow>
              (case rb_username body of
                 None \<Rightarrow>
                   (Inl (TypeError ''Cannot read properties of undefined (reading toLowerCase)''), db)
               | Some un \<Rightarrow>
                   (case User_create
                           \<lparr>nu_fullName = rb_fullName body, nu_avatar = avatar_url,
                            nu_coverImage =
                              (case uploadOnCloudinary (rf_coverImage files) of
                                 None \<Rightarrow> [] | Some cover_url \<Rightarrow> cover_url),
                            nu_email = rb_email body, nu_password = rb_password body,
                            nu_username = toLowerCase un\<rparr> db of
                      Inl err \<Rightarrow> (Inl err, db)
                    | Inr (created, db') \<Rightarrow>
                        (Inr (map_option (select_excluding [''password'', ''refreshToken''])
                                (findById db' (uid created))), db'))))"

text \<open>An authentication failure is an \<^verbatim>\<open>ApiError\<close> with status 401.\<close>

fun is_AuthFailure :: "error + 'a \<Rightarrow> bool" where
  "is_AuthFailure (Inl (ApiError c m)) = (c = 401)"
| "is_AuthFailure _ = False"

subsection \<open>A small collection to run the handlers on\<close>

definition env0 :: env where
  "env0 = \<lparr>ACCESS_TOKEN_SECRET = ''access-secret'', ACCESS_TOKEN_EXPIRY = 10,
            REFRESH_TOKEN_SECRET = ''refresh-secret'', REFRESH_TOKEN_EXPIRY = 100,
            clock = 5, save_ok = True,
            bcrypt_compare = (\<lambda>pw h. h = CHR ''#'' # pw),
            bcrypt_hash = (\<lambda>pw. CHR ''#'' # pw)\<rparr>"

definition alice :: user where
  "alice = \<lparr>uid = 1, username = ''alice'', email = ''alice@example.com'',
             fullName = ''Alice'', avatar = ''http://media/alice.png'', coverImage = [],
             password = ''#wonderland'', refreshToken = None, watchHistory = []\<rparr>"

definition bob :: user where
  "bob = \<lparr>uid = 2, username = ''bob'', email = ''bob@example.com'',
           fullName = ''Bob'', avatar = ''http://media/bob.png'', coverImage = [],
           password = ''#builder'', refreshToken = None, watchHistory = [1]\<rparr>"

definition db0 :: "user list" where
  "db0 = [alice, bob]"

definition alice_login :: login_body where
  "alice_login = \<lparr>lb_email = None, lb_username = Some ''alice'',
                   lb_password = Some ''wonderland''\<rparr>"

text \<open>The refresh token that a login of alice at clock 5 returns, and the collection then.\<close>

definition tok5 :: jwt where
  "tok5 = Signed \<lparr>tok_id = 1, tok_exp = 105, tok_key = ''refresh-secret''\<rparr>"

definition db5 :: "user list" where
  "db5 = [alice\<lparr>refreshToken := Some tok5\<rparr>, bob]"

text \<open>Collaborators for registration: an upload that always succeeds, a create that appends.\<close>

definition upload0 :: "string option \<Rightarrow> string option" where
  "upload0 path = (case path of None \<Rightarrow> None | Some p \<Rightarrow> Some (''http://media/'' @ p))"

definition create0 :: "new_user \<Rightarrow> user list \<Rightarrow> error + user \<times> user list" where
  "create0 n db =
     (let u = \<lparr>uid = Suc (fold max (map uid db) 0), username = nu_username n,
                email = (case nu_email n of None \<Rightarrow> [] | Some s \<Rightarrow> s),
                fullName = (case nu_fullName n of None \<Rightarrow> [] | Some s \<Rightarrow> s),
                avatar = nu_avatar n, coverImage = nu_coverImage n,
                password = (case nu_password n of None \<Rightarrow> [] | Some s \<Rightarrow> CHR ''#'' # s),
                refreshToken = None, watchHistory = []\<rparr>
      in Inr (u, db @ [u]))"

definition carol_files :: register_files where
  "carol_files = \<lparr>rf_avatar = Some ''carol.png'', rf_coverImage = None\<rparr>"

section \<open>Properties\<close>

subsection \<open>Lookups after a write\<close>

lemma findById_uid: "findById db i = Some u \<Longrightarrow> uid u = i"
  by (auto simp: findById_def find_Some_iff)

lemma findById_save:
  "findById (save db u) j =
     (if j = uid u then map_option (\<lambda>_. u) (findById db j) else findById db j)"
  by (induction db) (auto simp: findById_def)

lemma findById_findByIdAndUpdate:
  "(\<And>v. uid (f v) = uid v) \<Longrightarrow>
   findById (findByIdAndUpdate db i f) j =
     (if j = i then map_option f (findById db i) else findById db j)"
  by (induction db) (auto simp: findById_def)

text \<open>An update that sets nothing leaves the collection as it is, for every caller.\<close>

lemma findByIdAndUpdate_unchanged:
  "findByIdAndUpdate db i (set_refreshToken None) = db"
  by (induction db) (simp_all add: set_refreshToken_def)

lemma logoutUser_unchanged: "snd (logoutUser db i) = db"
  by (simp add: logoutUser_def findByIdAndUpdate_unchanged)

subsection \<open>What the handlers did when they succeeded\<close>

lemma generate_Inr:
  assumes "generateAccessAndRefreshTokens e db i = (Inr (a, r), db')"
  shows "\<exists>u. findById db i = Some u \<and> save_ok e \<and> a = generateAccessToken e u \<and>
             r = generateRefreshToken e u \<and> db' = save db (u\<lparr>refreshToken := Some r\<rparr>)"
  using assms
  by (auto simp: generateAccessAndRefreshTokens_def Let_def split: option.splits if_splits)

lemma generate_success:
  assumes "findById db i = Some u" and "save_ok e"
  shows "generateAccessAndRefreshTokens e db i =
           (Inr (generateAccessToken e u, generateRefreshToken e u),
            save db (u\<lparr>refreshToken := Some (generateRefreshToken e u)\<rparr>))"
  using assms by (simp add: generateAccessAndRefreshTokens_def Let_def)

text \<open>After tokens were issued for a user, the stored document holds the new refresh token.\<close>

lemma generate_stored:
  assumes "generateAccessAndRefreshTokens e db i = (Inr (a, r), db')"
  shows "r = jwt_sign i (REFRESH_TOKEN_SECRET e) (REFRESH_TOKEN_EXPIRY e) (clock e)"
    and "\<exists>u'. findById db' i = Some u' \<and> refreshToken u' = Some r"
proof -
  from generate_Inr [OF assms] obtain u where u: "findById db i = Some u"
    and r: "r = generateRefreshToken e u"
    and db': "db' = save db (u\<lparr>refreshToken := Some r\<rparr>)" by blast
  from u have id: "uid u = i" by (rule findById_uid)
  show "r = jwt_sign i (REFRESH_TOKEN_SECRET e) (REFRESH_TOKEN_EXPIRY e) (clock e)"
    using r id by (simp add: generateRefreshToken_def)
  show "\<exists>u'. findById db' i = Some u' \<and> refreshToken u' = Some r"
    using u id db' by (simp add: findById_save)
qed

lemma refresh_rejects:
  assumes "\<And>u. findById db (tok_id p) = Some u \<Longrightarrow> refreshToken u \<noteq> Some (Signed p)"
  shows "\<exists>m. refreshAccessToken e db (Some (Signed p)) b = (Inl (ApiError 401 m), db)"
  using assms
  by (auto simp: refreshAccessToken_def falsy_token_def rethrow_401_def
           split: option.splits sum.splits)

lemma refresh_accepts:
  assumes "tok_key p = REFRESH_TOKEN_SECRET e" and "clock e < tok_exp p"
    and "findById db (tok_id p) = Some u" and "refreshToken u = Some (Signed p)"
    and "save_ok e"
  shows "refreshAccessToken e db (Some (Signed p)) b =
           (Inr \<lparr>rr_accessToken = generateAccessToken e u,
                 rr_refreshToken = generateRefreshToken e u\<rparr>,
            save db (u\<lparr>refreshToken := Some (generateRefreshToken e u)\<rparr>))"
proof -
  have id: "uid u = tok_id p" using assms(3) by (rule findById_uid)
  have g: "generateAccessAndRefreshTokens e db (uid u) =
           (Inr (generateAccessToken e u, generateRefreshToken e u),
            save db (u\<lparr>refreshToken := Some (generateRefreshToken e u)\<rparr>))"
    using assms(3,5) id by (simp add: generate_success)
  show ?thesis
    using assms(1-4) g by (simp add: refreshAccessToken_def falsy_token_def)
qed

lemma refresh_Inr:
  assumes "refreshAccessToken e db (Some (Signed p)) b = (Inr resp, db')"
  shows "tok_key p = REFRESH_TOKEN_SECRET e \<and> clock e < tok_exp p \<and>
         (\<exists>a. generateAccessAndRefreshTokens e db (tok_id p) =
                (Inr (a, rr_refreshToken resp), db'))"
  using assms
  by (auto simp: refreshAccessToken_def falsy_token_def rethrow_401_def
      split: option.splits sum.splits if_splits prod.splits dest: findById_uid)

lemma login_Inr:
  assumes "loginUser e db body = (Inr resp, db')"
  shows "\<exists>u a. findOne_or db (lb_email body) (lb_username body) = Some u \<and>
           generateAccessAndRefreshTokens e db (uid u) = (Inr (a, lr_refreshToken resp), db') \<and>
           lr_user resp = map_option (select_excluding [''password'', ''refreshToken''])
                            (findById db' (uid u))"
  using assms
  by (auto simp: loginUser_def split: option.splits sum.splits if_splits prod.splits)

subsection \<open>The claims\<close>

text \<open>
  C7. A login for which a user document is found but the password comparison answers
  false fails with the 401 error, returns no tokens and leaves the whole collection,
  hence the stored refresh token of that user, as it was.
\<close>

theorem login_wrong_password:
  assumes "\<not> ((falsy (lb_email body) \<and> falsy (lb_username body)) \<or> falsy (lb_password body))"
    and "findOne_or db (lb_email body) (lb_username body) = Some u"
    and "lb_password body = Some pw"
    and "\<not> bcrypt_compare e pw (password u)"
  shows "loginUser e db body = (Inl (ApiError 401 ''Invalid credentials''), db)"
  using assms by (simp add: loginUser_def isPasswordCorrect_def)

theorem login_wrong_password_witness:
  "loginUser env0 db0 (alice_login\<lparr>lb_password := Some ''looking-glass''\<rparr>)
     = (Inl (ApiError 401 ''Invalid credentials''), db0)"
proof -
  let ?body = "alice_login\<lparr>lb_password := Some ''looking-glass''\<rparr>"
  have h1: "\<not> ((falsy (lb_email ?body) \<and> falsy (lb_username ?body)) \<or> falsy (lb_password ?body))"
    by (simp add: alice_login_def falsy_def)
  have h2: "findOne_or db0 (lb_email ?body) (lb_username ?body) = Some alice"
    by (simp add: findOne_or_def db0_def alice_login_def alice_def)
  have h3: "lb_password ?body = Some ''looking-glass''" by simp
  have h4: "\<not> bcrypt_compare env0 ''looking-glass'' (password alice)"
    by (simp add: env0_def alice_def)
  show ?thesis by (rule login_wrong_password [OF h1 h2 h3 h4])
qed

text \<open>
  C1. The code breaks the claim. The comment at the update says that it removes the
  refresh token from the database, but the update sets the field to \<^verbatim>\<open>undefined\<close>, which
  sets nothing: after the logout of alice the collection is as it was, her refresh token
  is still stored, and a refresh presenting it succeeds.
\<close>

theorem logout_leaves_token_stored:
  "logoutUser db5 1
     = (Inr \<lparr>statusCode = 200, message = ''User logged out successfully''\<rparr>, db5)
   \<and> map_option refreshToken (findById (snd (logoutUser db5 1)) 1) = Some (Some tok5)
   \<and> refreshAccessToken (env0\<lparr>clock := 6\<rparr>) (snd (logoutUser db5 1)) (Some tok5) None
     = (Inr \<lparr>rr_accessToken = Signed \<lparr>tok_id = 1, tok_exp = 16, tok_key = ''access-secret''\<rparr>,
             rr_refreshToken = Signed \<lparr>tok_id = 1, tok_exp = 106, tok_key = ''refresh-secret''\<rparr>\<rparr>,
        [alice\<lparr>refreshToken := Some (Signed \<lparr>tok_id = 1, tok_exp = 106, tok_key = ''refresh-secret''\<rparr>)\<rparr>, bob])"
proof -
  have l: "logoutUser db5 1
     = (Inr \<lparr>statusCode = 200, message = ''User logged out successfully''\<rparr>, db5)"
    by (simp add: logoutUser_def findByIdAndUpdate_unchanged)
  have f: "map_option refreshToken (findById db5 1) = Some (Some tok5)"
    by (simp add: findById_def db5_def alice_def)
  have r: "refreshAccessToken (env0\<lparr>clock := 6\<rparr>) db5 (Some tok5) None
     = (Inr \<lparr>rr_accessToken = Signed \<lparr>tok_id = 1, tok_exp = 16, tok_key = ''access-secret''\<rparr>,
             rr_refreshToken = Signed \<lparr>tok_id = 1, tok_exp = 106, tok_key = ''refresh-secret''\<rparr>\<rparr>,
        [alice\<lparr>refreshToken := Some (Signed \<lparr>tok_id = 1, tok_exp = 106, tok_key = ''refresh-secret''\<rparr>)\<rparr>, bob])"
    by (simp add: refreshAccessToken_def falsy_token_def tok5_def env0_def db5_def alice_def bob_def
        findById_def generateAccessAndRefreshTokens_def generateAccessToken_def
        generateRefreshToken_def jwt_sign_def Let_def)
  from f r show ?thesis unfolding l by simp
qed

text \<open>
  C2 (as amended). After a successful refresh that issued a refresh token different from
  the presented one, presenting the superseded token again fails with a 401 error and
  changes nothing, whatever the clock and the other inputs of the second call are.
\<close>

theorem replay_after_refresh_fails:
  assumes "refreshAccessToken e db (Some (Signed p)) b = (Inr resp, db')"
    and "rr_refreshToken resp \<noteq> Signed p"
  shows "\<exists>m. refreshAccessToken e' db' (Some (Signed p)) b' = (Inl (ApiError 401 m), db')"
proof -
  from refresh_Inr [OF assms(1)] obtain a where
    g: "generateAccessAndRefreshTokens e db (tok_id p) = (Inr (a, rr_refreshToken resp), db')"
    by blast
  from generate_stored(2) [OF g] obtain u' where
    u': "findById db' (tok_id p) = Some u'" "refreshToken u' = Some (rr_refreshToken resp)"
    by blast
  show ?thesis
    by (rule refresh_rejects) (use u' assms(2) in auto)
qed

theorem replay_after_refresh_fails_witness:
  "refreshAccessToken (env0\<lparr>clock := 6\<rparr>) db5 (Some tok5) None
     = (Inr \<lparr>rr_accessToken = Signed \<lparr>tok_id = 1, tok_exp = 16, tok_key = ''access-secret''\<rparr>,
             rr_refreshToken = Signed \<lparr>tok_id = 1, tok_exp = 106, tok_key = ''refresh-secret''\<rparr>\<rparr>,
        [alice\<lparr>refreshToken := Some (Signed \<lparr>tok_id = 1, tok_exp = 106, tok_key = ''refresh-secret''\<rparr>)\<rparr>, bob])
   \<and> (\<exists>m. refreshAccessToken (env0\<lparr>clock := 7\<rparr>)
             [alice\<lparr>refreshToken := Some (Signed \<lparr>tok_id = 1, tok_exp = 106, tok_key = ''refresh-secret''\<rparr>)\<rparr>, bob]
             (Some tok5) None
           = (Inl (ApiError 401 m),
              [alice\<lparr>refreshToken := Some (Signed \<lparr>tok_id = 1, tok_exp = 106, tok_key = ''refresh-secret''\<rparr>)\<rparr>, bob]))"
proof -
  let ?p = "\<lparr>tok_id = 1, tok_exp = 105, tok_key = ''refresh-secret''\<rparr>"
  let ?resp = "\<lparr>rr_accessToken = Signed \<lparr>tok_id = 1, tok_exp = 16, tok_key = ''access-secret''\<rparr>,
             rr_refreshToken = Signed \<lparr>tok_id = 1, tok_exp = 106, tok_key = ''refresh-secret''\<rparr>\<rparr>"
  let ?db' = "[alice\<lparr>refreshToken := Some (Signed \<lparr>tok_id = 1, tok_exp = 106, tok_key = ''refresh-secret''\<rparr>)\<rparr>, bob]"
  have h1: "refreshAccessToken (env0\<lparr>clock := 6\<rparr>) db5 (Some (Signed ?p)) None = (Inr ?resp, ?db')"
    by (simp add: refreshAccessToken_def falsy_token_def tok5_def env0_def db5_def alice_def bob_def
        findById_def generateAccessAndRefreshTokens_def generateAccessToken_def
        generateRefreshToken_def jwt_sign_def Let_def)
  have h2: "rr_refreshToken ?resp \<noteq> Signed ?p" by simp
  from replay_after_refresh_fails [OF h1 h2, of "env0\<lparr>clock := 7\<rparr>" None] h1
  show ?thesis by (simp add: tok5_def)
qed

text \<open>
  C2 as stated fails: a refresh in the clock tick in which the presented token was signed
  issues the same text again, and the second presentation succeeds like the first.
\<close>

theorem replay_after_refresh_counterexample:
  "fst (refreshAccessToken env0 db5 (Some tok5) None)
     = Inr \<lparr>rr_accessToken = Signed \<lparr>tok_id = 1, tok_exp = 15, tok_key = ''access-secret''\<rparr>,
            rr_refreshToken = tok5\<rparr>
   \<and> \<not> isl (fst (refreshAccessToken env0 (snd (refreshAccessToken env0 db5 (Some tok5) None))
                  (Some tok5) None))"
  by (simp add: refreshAccessToken_def falsy_token_def tok5_def env0_def db5_def alice_def bob_def
        findById_def generateAccessAndRefreshTokens_def generateAccessToken_def
        generateRefreshToken_def jwt_sign_def Let_def)

text \<open>The collection \<open>db5\<close> is what a login of alice at clock 5 leaves.\<close>

lemma alice_login_at_5:
  "loginUser env0 db0 alice_login
     = (Inr \<lparr>lr_user = Some [(''_id'', FId 1), (''username'', FString ''alice''),
                (''email'', FString ''alice@example.com''), (''fullName'', FString ''Alice''),
                (''avatar'', FString ''http://media/alice.png''), (''coverImage'', FString []),
                (''watchHistory'', FIds [])],
             lr_accessToken = Signed \<lparr>tok_id = 1, tok_exp = 15, tok_key = ''access-secret''\<rparr>,
             lr_refreshToken = tok5\<rparr>, db5)"
  by (simp add: loginUser_def falsy_def alice_login_def findOne_or_def db0_def alice_def bob_def
      isPasswordCorrect_def env0_def generateAccessAndRefreshTokens_def findById_def
      generateAccessToken_def generateRefreshToken_def jwt_sign_def Let_def tok5_def db5_def
      select_excluding_def toObject_def)




text \<open>
  C4 (as amended). After a successful login, a refresh at a later clock time before the
  expiry of the returned refresh token, with the same signing settings and a write that
  succeeds, presenting that token, succeeds and returns a refresh token different from it.
\<close>

theorem login_then_refresh_rotates:
  assumes "loginUser e db body = (Inr resp, db')"
    and "REFRESH_TOKEN_SECRET e' = REFRESH_TOKEN_SECRET e"
    and "REFRESH_TOKEN_EXPIRY e' = REFRESH_TOKEN_EXPIRY e"
    and "clock e < clock e'" and "clock e' < clock e + REFRESH_TOKEN_EXPIRY e"
    and "save_ok e'"
  shows "\<exists>resp' db''. refreshAccessToken e' db' (Some (lr_refreshToken resp)) b = (Inr resp', db'')
           \<and> rr_refreshToken resp' \<noteq> lr_refreshToken resp"
proof -
  from login_Inr [OF assms(1)] obtain u :: user and a where
    g: "generateAccessAndRefreshTokens e db (uid u) = (Inr (a, lr_refreshToken resp), db')"
    by blast
  let ?p = "\<lparr>tok_id = uid u, tok_exp = clock e + REFRESH_TOKEN_EXPIRY e,
             tok_key = REFRESH_TOKEN_SECRET e\<rparr>"
  have r: "lr_refreshToken resp = Signed ?p"
    using generate_stored(1) [OF g] by (simp add: jwt_sign_def)
  from generate_stored(2) [OF g] r obtain u' where
    u': "findById db' (tok_id ?p) = Some u'" "refreshToken u' = Some (Signed ?p)"
    by auto
  have id: "uid u' = uid u" using findById_uid [OF u'(1)] by simp
  have acc: "refreshAccessToken e' db' (Some (Signed ?p)) b =
           (Inr \<lparr>rr_accessToken = generateAccessToken e' u',
                 rr_refreshToken = generateRefreshToken e' u'\<rparr>,
            save db' (u'\<lparr>refreshToken := Some (generateRefreshToken e' u')\<rparr>))"
    by (rule refresh_accepts) (use assms u' in simp_all)
  have "generateRefreshToken e' u' \<noteq> Signed ?p"
    using assms(3,4) by (simp add: generateRefreshToken_def jwt_sign_def)
  with acc r show ?thesis by simp
qed

theorem login_then_refresh_rotates_witness:
  "loginUser env0 db0 alice_login
     = (Inr \<lparr>lr_user = Some [(''_id'', FId 1), (''username'', FString ''alice''),
                (''email'', FString ''alice@example.com''), (''fullName'', FString ''Alice''),
                (''avatar'', FString ''http://media/alice.png''), (''coverImage'', FString []),
                (''watchHistory'', FIds [])],
             lr_accessToken = Signed \<lparr>tok_id = 1, tok_exp = 15, tok_key = ''access-secret''\<rparr>,
             lr_refreshToken = tok5\<rparr>, db5)
   \<and> clock env0 < clock (env0\<lparr>clock := 6\<rparr>)
   \<and> clock (env0\<lparr>clock := 6\<rparr>) < clock env0 + REFRESH_TOKEN_EXPIRY env0
   \<and> (\<exists>resp' db''. refreshAccessToken (env0\<lparr>clock := 6\<rparr>) db5 (Some tok5) None = (Inr resp', db'')
           \<and> rr_refreshToken resp' \<noteq> tok5)"
proof -
  have h4: "clock env0 < clock (env0\<lparr>clock := 6\<rparr>)" by (simp add: env0_def)
  have h5: "clock (env0\<lparr>clock := 6\<rparr>) < clock env0 + REFRESH_TOKEN_EXPIRY env0"
    by (simp add: env0_def)
  have h6: "save_ok (env0\<lparr>clock := 6\<rparr>)" by (simp add: env0_def)
  from login_then_refresh_rotates [OF alice_login_at_5 _ _ h4 h5 h6, of None]
  show ?thesis using alice_login_at_5 h4 h5 by simp
qed

text \<open>
  C4 as stated fails: a refresh in the clock tick of the login succeeds, but the refresh
  token it returns is the one it was given.
\<close>

theorem login_then_refresh_counterexample:
  "\<not> isl (fst (loginUser env0 db0 alice_login))
   \<and> \<not> isl (fst (refreshAccessToken env0 (snd (loginUser env0 db0 alice_login))
                  (Some (lr_refreshToken (projr (fst (loginUser env0 db0 alice_login))))) None))
   \<and> rr_refreshToken (projr (fst (refreshAccessToken env0 (snd (loginUser env0 db0 alice_login))
                  (Some (lr_refreshToken (projr (fst (loginUser env0 db0 alice_login))))) None)))
       = lr_refreshToken (projr (fst (loginUser env0 db0 alice_login)))"
proof -
  have r: "refreshAccessToken env0 db5 (Some tok5) None
     = (Inr \<lparr>rr_accessToken = Signed \<lparr>tok_id = 1, tok_exp = 15, tok_key = ''access-secret''\<rparr>,
             rr_refreshToken = tok5\<rparr>, db5)"
    by (simp add: refreshAccessToken_def falsy_token_def tok5_def env0_def db5_def alice_def bob_def
        findById_def generateAccessAndRefreshTokens_def generateAccessToken_def
        generateRefreshToken_def jwt_sign_def Let_def)
  show ?thesis by (simp add: alice_login_at_5 r)
qed

text \<open>
  C5. A refresh presenting a token signed with the refresh secret whose expiry timestamp
  has passed fails with the 401 error whose message is that of the expired-token error
  of the verification and changes nothing; and no other well-formed token, whatever
  the collection, is answered with that error: a bad signature, an unknown user, a
  mismatch with the stored token and a failed write all carry other messages.
\<close>

theorem expired_token_distinguished:
  assumes "tok_key p = REFRESH_TOKEN_SECRET e" and "tok_exp p \<le> clock e"
  shows "refreshAccessToken e db (Some (Signed p)) b = (Inl (ApiError 401 ''jwt expired''), db)
       \<and> (\<forall>q db2 b2. fst (refreshAccessToken e db2 (Some (Signed q)) b2)
                        = Inl (ApiError 401 ''jwt expired'')
             \<longrightarrow> tok_key q = REFRESH_TOKEN_SECRET e \<and> tok_exp q \<le> clock e)"
proof -
  have 1: "refreshAccessToken e db (Some (Signed p)) b = (Inl (ApiError 401 ''jwt expired''), db)"
    using assms by (simp add: refreshAccessToken_def falsy_token_def rethrow_401_def)
  have 2: "tok_key q = REFRESH_TOKEN_SECRET e \<and> tok_exp q \<le> clock e"
    if "fst (refreshAccessToken e db2 (Some (Signed q)) b2) = Inl (ApiError 401 ''jwt expired'')"
    for q db2 b2
    using that
    by (auto simp: refreshAccessToken_def falsy_token_def rethrow_401_def
          generateAccessAndRefreshTokens_def Let_def
        split: option.splits sum.splits if_splits prod.splits)
  from 1 2 show ?thesis by blast
qed

theorem expired_token_distinguished_witness:
  "tok_exp \<lparr>tok_id = 1, tok_exp = 105, tok_key = ''refresh-secret''\<rparr> \<le> clock (env0\<lparr>clock := 105\<rparr>)
   \<and> refreshAccessToken (env0\<lparr>clock := 105\<rparr>) db5 (Some tok5) None
       = (Inl (ApiError 401 ''jwt expired''), db5)
   \<and> fst (refreshAccessToken (env0\<lparr>clock := 105\<rparr>) db5
            (Some (Signed \<lparr>tok_id = 1, tok_exp = 105, tok_key = ''forged''\<rparr>)) None)
       = Inl (ApiError 401 ''invalid signature'')
   \<and> fst (refreshAccessToken (env0\<lparr>clock := 105\<rparr>) db5
            (Some (Signed \<lparr>tok_id = 1, tok_exp = 200, tok_key = ''refresh-secret''\<rparr>)) None)
       = Inl (ApiError 401 ''Expired or invalid refresh token'')"
proof -
  let ?p = "\<lparr>tok_id = 1, tok_exp = 105, tok_key = ''refresh-secret''\<rparr>"
  let ?e = "env0\<lparr>clock := 105\<rparr>"
  have h1: "tok_key ?p = REFRESH_TOKEN_SECRET ?e" by (simp add: env0_def)
  have h2: "tok_exp ?p \<le> clock ?e" by (simp add: env0_def)
  have forged: "fst (refreshAccessToken ?e db5
            (Some (Signed \<lparr>tok_id = 1, tok_exp = 105, tok_key = ''forged''\<rparr>)) None)
       = Inl (ApiError 401 ''invalid signature'')"
    by (simp add: refreshAccessToken_def falsy_token_def rethrow_401_def env0_def)
  have stale: "fst (refreshAccessToken ?e db5
            (Some (Signed \<lparr>tok_id = 1, tok_exp = 200, tok_key = ''refresh-secret''\<rparr>)) None)
       = Inl (ApiError 401 ''Expired or invalid refresh token'')"
    by (simp add: refreshAccessToken_def falsy_token_def rethrow_401_def env0_def db5_def
        findById_def alice_def tok5_def)
  from expired_token_distinguished [OF h1 h2, of db5 None] h2 forged stale
  show ?thesis by (simp add: tok5_def)
qed

text \<open>
  C6. The code breaks the claim on refresh. When the write of the new refresh token
  fails, login answers with the 500 error of the token generation, but refresh, given
  the valid stored token of alice, answers with a 401 error carrying the message of
  that 500 error: its \<^verbatim>\<open>catch\<close> rethrows everything with status 401.
\<close>

theorem storage_failure_on_refresh_is_401:
  "loginUser (env0\<lparr>save_ok := False\<rparr>) db0 alice_login
     = (Inl (ApiError 500 ''Something went wrong while generating tokens''), db0)
   \<and> refreshAccessToken (env0\<lparr>save_ok := False\<rparr>) db5 (Some tok5) None
     = (Inl (ApiError 401 ''Something went wrong while generating tokens''), db5)
   \<and> is_AuthFailure (fst (refreshAccessToken (env0\<lparr>save_ok := False\<rparr>) db5 (Some tok5) None))"
proof -
  have l: "loginUser (env0\<lparr>save_ok := False\<rparr>) db0 alice_login
     = (Inl (ApiError 500 ''Something went wrong while generating tokens''), db0)"
    by (simp add: loginUser_def falsy_def alice_login_def findOne_or_def db0_def alice_def bob_def
      isPasswordCorrect_def env0_def generateAccessAndRefreshTokens_def findById_def Let_def)
  have r: "refreshAccessToken (env0\<lparr>save_ok := False\<rparr>) db5 (Some tok5) None
     = (Inl (ApiError 401 ''Something went wrong while generating tokens''), db5)"
    by (simp add: refreshAccessToken_def falsy_token_def tok5_def env0_def db5_def alice_def bob_def
        findById_def generateAccessAndRefreshTokens_def Let_def rethrow_401_def)
  show ?thesis by (simp add: l r)
qed

text \<open>
  A refresh reads of a stored document only its \<^verbatim>\<open>_id\<close> and its refresh token: on two
  collections whose lookups agree up to a change that keeps both, it answers the same.
\<close>

lemma generate_fst_cong:
  assumes "\<And>j. findById db2 j = map_option g (findById db1 j)"
    and "\<And>v. uid (g v) = uid v"
  shows "fst (generateAccessAndRefreshTokens e db2 i) = fst (generateAccessAndRefreshTokens e db1 i)"
  using assms
  by (simp add: generateAccessAndRefreshTokens_def Let_def generateAccessToken_def
      generateRefreshToken_def split: option.splits)

lemma refresh_fst_cong:
  assumes "\<And>j. findById db2 j = map_option g (findById db1 j)"
    and "\<And>v. uid (g v) = uid v" and "\<And>v. refreshToken (g v) = refreshToken v"
  shows "fst (refreshAccessToken e db2 c b) = fst (refreshAccessToken e db1 c b)"
proof -
  have g: "fst (generateAccessAndRefreshTokens e db2 i) = fst (generateAccessAndRefreshTokens e db1 i)"
    for i using assms(1,2) by (rule generate_fst_cong)
  have s: "fst (case x of (Inl err, d) \<Rightarrow> (Inl (rethrow_401 (error_message err)), d)
                 | (Inr (a, r), d) \<Rightarrow> (Inr \<lparr>rr_accessToken = a, rr_refreshToken = r\<rparr>, d))
           = (case fst x of Inl err \<Rightarrow> Inl (rethrow_401 (error_message err))
                 | Inr (a, r) \<Rightarrow> Inr \<lparr>rr_accessToken = a, rr_refreshToken = r\<rparr>)"
    for x :: "(error + jwt \<times> jwt) \<times> user list"
    by (auto split: prod.splits sum.splits)
  show ?thesis
    unfolding refreshAccessToken_def
    by (auto simp: assms s g split: option.splits sum.splits)
qed

lemma save_map:
  assumes "findById db (uid u) = Some u" and "uid u' = uid u" and "h u' = h u"
  shows "map h (save db u') = map h db"
  using assms by (induction db) (auto simp: findById_def)

lemma changeCurrentPassword_Inr:
  assumes "changeCurrentPassword e db i oldpassword newPassword = (Inr resp, db')"
  shows "\<exists>u. findById db i = Some u \<and> isPasswordCorrect e u oldpassword \<and> save_ok e \<and>
             db' = save db (u\<lparr>password := bcrypt_hash e newPassword\<rparr>)"
  using assms
  by (auto simp: changeCurrentPassword_def split: option.splits if_splits)

text \<open>
  C8. A successful password change leaves every stored document as it was except for
  the password of the caller: all refresh-token fields are unchanged, and any refresh,
  with any token, at any time, is answered after the change as it would have been
  answered before it.
\<close>

theorem change_password_keeps_sessions:
  assumes "changeCurrentPassword e db i oldpassword newPassword = (Inr resp, db')"
  shows "map refreshToken db' = map refreshToken db
       \<and> map (\<lambda>v. v\<lparr>password := []\<rparr>) db' = map (\<lambda>v. v\<lparr>password := []\<rparr>) db
       \<and> (\<forall>e' c b. fst (refreshAccessToken e' db' c b) = fst (refreshAccessToken e' db c b))"
proof -
  from changeCurrentPassword_Inr [OF assms] obtain u where
    u: "findById db i = Some u"
    and db': "db' = save db (u\<lparr>password := bcrypt_hash e newPassword\<rparr>)" by blast
  let ?u' = "u\<lparr>password := bcrypt_hash e newPassword\<rparr>"
  have id: "uid u = i" using u by (rule findById_uid)
  have u0: "findById db (uid u) = Some u" using u id by simp
  have 1: "map refreshToken db' = map refreshToken db"
    unfolding db' by (rule save_map [OF u0]) simp_all
  have 2: "map (\<lambda>v. v\<lparr>password := []\<rparr>) db' = map (\<lambda>v. v\<lparr>password := []\<rparr>) db"
    unfolding db' by (rule save_map [OF u0]) simp_all
  let ?g = "\<lambda>v. v\<lparr>password := (if uid v = i then bcrypt_hash e newPassword else password v)\<rparr>"
  have look: "findById db' j = map_option ?g (findById db j)" for j
  proof (cases "j = i")
    case True
    then show ?thesis using u id by (simp add: db' findById_save)
  next
    case False
    then show ?thesis
      using id by (cases "findById db j") (auto simp: db' findById_save dest: findById_uid)
  qed
  have 3: "fst (refreshAccessToken e' db' c b) = fst (refreshAccessToken e' db c b)" for e' c b
    by (rule refresh_fst_cong [where g = ?g]) (simp_all add: look)
  from 1 2 3 show ?thesis by blast
qed

theorem change_password_keeps_sessions_witness:
  "changeCurrentPassword env0 db5 1 ''wonderland'' ''looking-glass''
     = (Inr \<lparr>statusCode = 200, message = ''Password changed successfully.''\<rparr>,
        [alice\<lparr>password := ''#looking-glass'', refreshToken := Some tok5\<rparr>, bob])
   \<and> map refreshToken [alice\<lparr>password := ''#looking-glass'', refreshToken := Some tok5\<rparr>, bob]
       = [Some tok5, None]
   \<and> fst (refreshAccessToken (env0\<lparr>clock := 6\<rparr>)
            [alice\<lparr>password := ''#looking-glass'', refreshToken := Some tok5\<rparr>, bob]
            (Some tok5) None)
       = Inr \<lparr>rr_accessToken = Signed \<lparr>tok_id = 1, tok_exp = 16, tok_key = ''access-secret''\<rparr>,
              rr_refreshToken = Signed \<lparr>tok_id = 1, tok_exp = 106, tok_key = ''refresh-secret''\<rparr>\<rparr>"
proof -
  let ?db' = "[alice\<lparr>password := ''#looking-glass'', refreshToken := Some tok5\<rparr>, bob]"
  have h: "changeCurrentPassword env0 db5 1 ''wonderland'' ''looking-glass''
     = (Inr \<lparr>statusCode = 200, message = ''Password changed successfully.''\<rparr>, ?db')"
    by (simp add: changeCurrentPassword_def findById_def db5_def alice_def bob_def
        isPasswordCorrect_def env0_def)
  have before: "fst (refreshAccessToken (env0\<lparr>clock := 6\<rparr>) db5 (Some tok5) None)
       = Inr \<lparr>rr_accessToken = Signed \<lparr>tok_id = 1, tok_exp = 16, tok_key = ''access-secret''\<rparr>,
              rr_refreshToken = Signed \<lparr>tok_id = 1, tok_exp = 106, tok_key = ''refresh-secret''\<rparr>\<rparr>"
    by (simp add: refreshAccessToken_def falsy_token_def tok5_def env0_def db5_def alice_def bob_def
        findById_def generateAccessAndRefreshTokens_def generateAccessToken_def
        generateRefreshToken_def jwt_sign_def Let_def)
  have stored: "map refreshToken db5 = [Some tok5, None]"
    by (simp add: db5_def alice_def bob_def)
  from change_password_keeps_sessions [OF h] h before stored
  show ?thesis by simp
qed

lemma select_excluding_keys:
  "fst ` set (select_excluding names u) \<inter> set names = {}"
  by (auto simp: select_excluding_def)

text \<open>
  C9. A successful login returns a user projection, and neither the password field nor
  the refresh-token field is among its fields.
\<close>

theorem login_projection_sanitized:
  assumes "loginUser e db body = (Inr resp, db')"
  shows "\<exists>doc. lr_user resp = Some doc
           \<and> ''password'' \<notin> fst ` set doc \<and> ''refreshToken'' \<notin> fst ` set doc"
proof -
  from login_Inr [OF assms] obtain u :: user and a where
    g: "generateAccessAndRefreshTokens e db (uid u) = (Inr (a, lr_refreshToken resp), db')"
    and p: "lr_user resp = map_option (select_excluding [''password'', ''refreshToken''])
                            (findById db' (uid u))"
    by blast
  from generate_stored(2) [OF g] obtain u' where "findById db' (uid u) = Some u'" by blast
  with p have "lr_user resp = Some (select_excluding [''password'', ''refreshToken''] u')"
    by simp
  moreover have "''password'' \<notin> fst ` set (select_excluding [''password'', ''refreshToken''] u')"
    and "''refreshToken'' \<notin> fst ` set (select_excluding [''password'', ''refreshToken''] u')"
    using select_excluding_keys [of "[''password'', ''refreshToken'']" u'] by auto
  ultimately show ?thesis by blast
qed

theorem login_projection_sanitized_witness:
  "\<not> isl (fst (loginUser env0 db0 alice_login))
   \<and> map fst (the (lr_user (projr (fst (loginUser env0 db0 alice_login)))))
       = [''_id'', ''username'', ''email'', ''fullName'', ''avatar'', ''coverImage'', ''watchHistory'']
   \<and> (\<exists>doc. lr_user (projr (fst (loginUser env0 db0 alice_login))) = Some doc
           \<and> ''password'' \<notin> fst ` set doc \<and> ''refreshToken'' \<notin> fst ` set doc)"
  using login_projection_sanitized [OF alice_login_at_5] by (simp add: alice_login_at_5)

text \<open>The stored document itself has both fields; the projection is what drops them.\<close>

lemma toObject_has_secrets:
  "''password'' \<in> fst ` set (toObject u) \<and> ''refreshToken'' \<in> fst ` set (toObject u)"
  by (simp add: toObject_def)

text \<open>
  C10 (as amended). When each of the four body fields is either absent or a string that
  is not blank, the required-fields check does not fire, however many fields are absent,
  and the request goes on to the duplicate lookup: with a duplicate it is answered 409;
  with none, an avatar that uploads and a username that is present, \<^verbatim>\<open>User.create\<close> is
  called with the absent fields passed on as they are, and its outcome is the outcome of
  the request.
\<close>

theorem register_absent_fields_pass_validation:
  assumes "\<forall>f \<in> set [rb_fullName body, rb_email body, rb_username body, rb_password body].
             \<forall>s. f = Some s \<longrightarrow> trim s \<noteq> []"
  shows "\<not> some_blank [rb_fullName body, rb_email body, rb_username body, rb_password body]
       \<and> (findOne_or db (rb_email body) (rb_username body) \<noteq> None \<longrightarrow>
            registerUser up cr db body files
              = (Inl (ApiError 409 ''User with email/username already exists''), db))
       \<and> (\<forall>url un. findOne_or db (rb_email body) (rb_username body) = None
              \<and> \<not> falsy (rf_avatar files) \<and> up (rf_avatar files) = Some url
              \<and> rb_username body = Some un \<longrightarrow>
            registerUser up cr db body files
              = (case cr \<lparr>nu_fullName = rb_fullName body, nu_avatar = url,
                          nu_coverImage = (case up (rf_coverImage files) of
                                             None \<Rightarrow> [] | Some cover_url \<Rightarrow> cover_url),
                          nu_email = rb_email body, nu_password = rb_password body,
                          nu_username = toLowerCase un\<rparr> db of
                   Inl err \<Rightarrow> (Inl err, db)
                 | Inr (created, db') \<Rightarrow>
                     (Inr (map_option (select_excluding [''password'', ''refreshToken''])
                             (findById db' (uid created))), db')))"
proof -
  have nb: "\<not> some_blank [rb_fullName body, rb_email body, rb_username body, rb_password body]"
    using assms by (auto simp: some_blank_def)
  show ?thesis
    using nb by (auto simp: registerUser_def split: option.splits)
qed

theorem register_absent_fields_pass_validation_witness:
  "\<not> some_blank [None, Some ''carol@example.com'', Some ''Carol'', Some ''pw'']
   \<and> registerUser upload0 create0 db0
        \<lparr>rb_fullName = None, rb_email = Some ''carol@example.com'',
         rb_username = Some ''Carol'', rb_password = Some ''pw''\<rparr> carol_files
      = (Inr (Some [(''_id'', FId 3), (''username'', FString ''carol''),
                    (''email'', FString ''carol@example.com''), (''fullName'', FString []),
                    (''avatar'', FString ''http://media/carol.png''),
                    (''coverImage'', FString []), (''watchHistory'', FIds [])]),
         db0 @ [\<lparr>uid = 3, username = ''carol'', email = ''carol@example.com'', fullName = [],
                 avatar = ''http://media/carol.png'', coverImage = [], password = ''#pw'',
                 refreshToken = None, watchHistory = []\<rparr>])"
proof -
  let ?body = "\<lparr>rb_fullName = None, rb_email = Some ''carol@example.com'',
         rb_username = Some ''Carol'', rb_password = Some ''pw''\<rparr>"
  have h: "\<forall>f \<in> set [rb_fullName ?body, rb_email ?body, rb_username ?body, rb_password ?body].
             \<forall>s. f = Some s \<longrightarrow> trim s \<noteq> []"
    by (simp add: trim_def is_space_def)
  have look: "findOne_or db0 (rb_email ?body) (rb_username ?body) = None"
    by (simp add: findOne_or_def db0_def alice_def bob_def)
  have av: "\<not> falsy (rf_avatar carol_files)" by (simp add: falsy_def carol_files_def)
  have up: "upload0 (rf_avatar carol_files) = Some ''http://media/carol.png''"
    by (simp add: upload0_def carol_files_def)
  have lower: "toLowerCase ''Carol'' = ''carol''"
    by code_simp
  have created: "create0 \<lparr>nu_fullName = None, nu_avatar = ''http://media/carol.png'',
                          nu_coverImage = [], nu_email = Some ''carol@example.com'',
                          nu_password = Some ''pw'', nu_username = ''carol''\<rparr> db0
        = Inr (\<lparr>uid = 3, username = ''carol'', email = ''carol@example.com'', fullName = [],
                 avatar = ''http://media/carol.png'', coverImage = [], password = ''#pw'',
                 refreshToken = None, watchHistory = []\<rparr>,
               db0 @ [\<lparr>uid = 3, username = ''carol'', email = ''carol@example.com'', fullName = [],
                 avatar = ''http://media/carol.png'', coverImage = [], password = ''#pw'',
                 refreshToken = None, watchHistory = []\<rparr>])"
    by (simp add: create0_def db0_def alice_def bob_def Let_def)
  have found: "findById (db0 @ [\<lparr>uid = 3, username = ''carol'', email = ''carol@example.com'', fullName = [],
                 avatar = ''http://media/carol.png'', coverImage = [], password = ''#pw'',
                 refreshToken = None, watchHistory = []\<rparr>]) 3
        = Some \<lparr>uid = 3, username = ''carol'', email = ''carol@example.com'', fullName = [],
                 avatar = ''http://media/carol.png'', coverImage = [], password = ''#pw'',
                 refreshToken = None, watchHistory = []\<rparr>"
    by (simp add: findById_def db0_def alice_def bob_def)
  from register_absent_fields_pass_validation [OF h, of db0 upload0 create0 carol_files]
  have "\<not> some_blank [None, Some ''carol@example.com'', Some ''Carol'', Some ''pw'']"
    and "registerUser upload0 create0 db0 ?body carol_files
      = (case create0 \<lparr>nu_fullName = None, nu_avatar = ''http://media/carol.png'',
                          nu_coverImage = [], nu_email = Some ''carol@example.com'',
                          nu_password = Some ''pw'', nu_username = ''carol''\<rparr> db0 of
                   Inl err \<Rightarrow> (Inl err, db0)
                 | Inr (created, db') \<Rightarrow>
                     (Inr (map_option (select_excluding [''password'', ''refreshToken''])
                             (findById db' (uid created))), db'))"
    using look av up lower by (simp_all add: upload0_def carol_files_def)
  then show ?thesis
    by (simp add: created found select_excluding_def toObject_def)
qed

text \<open>
  C10 as stated fails for the username: with the username absent and the other fields
  in order the check does not fire, but \<^verbatim>\<open>username.toLowerCase()\<close> throws while the
  argument of \<^verbatim>\<open>User.create\<close> is built, so no create takes place.
\<close>

theorem register_absent_username_counterexample:
  "\<not> some_blank [Some ''Carol'', Some ''carol@example.com'', None, Some ''pw'']
   \<and> registerUser upload0 create0 db0
        \<lparr>rb_fullName = Some ''Carol'', rb_email = Some ''carol@example.com'',
         rb_username = None, rb_password = Some ''pw''\<rparr> carol_files
      = (Inl (TypeError ''Cannot read properties of undefined (reading toLowerCase)''), db0)"
  by (simp add: registerUser_def some_blank_def trim_def is_space_def findOne_or_def db0_def
      alice_def bob_def falsy_def carol_files_def upload0_def)

end
